theory Spec2Isabelle
  imports Main
begin

section \<open>The GraphQL printer: \<^verbatim>\<open>src/language/printer.js\<close>\<close>

text \<open>
  The printer is a table of per-kind functions (\<^verbatim>\<open>printDocASTReducer\<close>) that the tree
  walker calls bottom-up: every entry receives a node whose children have already been
  replaced by their rendered strings, and returns a string. The table and its
  string-assembly helpers are embedded here. The walker itself (\<^verbatim>\<open>visit\<close>) lives in
  another module and is not part of this development.

  JavaScript strings are \<^typ>\<open>string\<close>; the code inspects the quote, the newline, the
  space and the tab only, which are single characters in either representation. A
  value that may be \<^verbatim>\<open>undefined\<close> or \<^verbatim>\<open>null\<close> is an \<^typ>\<open>'a option\<close> (\<^term>\<open>None\<close> for
  both, as the code only ever tests such a value for truthiness), and a thrown
  \<^verbatim>\<open>TypeError\<close> is the left summand of the result.
\<close>

subsection \<open>JavaScript strings and arrays\<close>

type_synonym maybeString = "string option"

type_synonym maybeArray = "maybeString list option"

datatype error = TypeError

abbreviation backslash :: char where
  "backslash \<equiv> CHR 0x5C"

abbreviation tab :: char where
  "tab \<equiv> CHR 0x09"

abbreviation newline :: char where
  "newline \<equiv> CHR 0x0A"

text \<open>Truthiness of a string-or-absent value: absent and the empty string are falsy.\<close>

definition truthy :: "maybeString \<Rightarrow> bool" where
  "truthy m = (case m of None \<Rightarrow> False | Some s \<Rightarrow> s \<noteq> [])"

text \<open>\<^verbatim>\<open>Array.prototype.join\<close>: an absent element contributes the empty string.\<close>

definition element_text :: "maybeString \<Rightarrow> string" where
  "element_text m = (case m of None \<Rightarrow> [] | Some s \<Rightarrow> s)"

fun array_join :: "maybeString list \<Rightarrow> string \<Rightarrow> string" where
  "array_join [] sep = []"
| "array_join [x] sep = element_text x"
| "array_join (x # y # ys) sep = element_text x @ sep @ array_join (y # ys) sep"

text \<open>\<^verbatim>\<open>s.indexOf(c)\<close> for a one-character search string: the first position, or -1.\<close>

fun indexOf :: "string \<Rightarrow> char \<Rightarrow> int" where
  "indexOf [] c = - 1"
| "indexOf (x # xs) c =
     (if x = c then 0
      else (let i = indexOf xs c in if i = - 1 then - 1 else i + 1))"

text \<open>\<^verbatim>\<open>s[0]\<close>: the first character, \<^verbatim>\<open>undefined\<close> on the empty string.\<close>

definition char_at_0 :: "string \<Rightarrow> char option" where
  "char_at_0 s = (case s of [] \<Rightarrow> None | c # _ \<Rightarrow> Some c)"

text \<open>\<^verbatim>\<open>s.replace(/\n/g, '\n  ')\<close>\<close>

fun replace_newlines :: "string \<Rightarrow> string" where
  "replace_newlines [] = []"
| "replace_newlines (c # cs) =
     (if c = newline then ''\<newline>  '' @ replace_newlines cs else c # replace_newlines cs)"

text \<open>
  \<^verbatim>\<open>s.replace(/"""/g, '\\"""')\<close>: the matches are found left to right and do not
  overlap; the scan resumes after the three quotes it has just replaced.
\<close>

fun replace_triple_quotes :: "string \<Rightarrow> string" where
  "replace_triple_quotes (a # b # c # cs) =
     (if a = CHR ''\"'' \<and> b = CHR ''\"'' \<and> c = CHR ''\"''
      then backslash # ''\"\"\"'' @ replace_triple_quotes cs
      else a # replace_triple_quotes (b # c # cs))"
| "replace_triple_quotes cs = cs"

text \<open>
  \<^verbatim>\<open>s.replace(/"$/, '"\n')\<close>: without the multiline flag \<^verbatim>\<open>$\<close> matches at the end of
  the input only, so a final quote, if there is one, gets a newline after it.
\<close>

definition replace_final_quote :: "string \<Rightarrow> string" where
  "replace_final_quote s =
     (if s \<noteq> [] \<and> last s = CHR ''\"'' then butlast s @ ''\"\<newline>'' else s)"

subsection \<open>The string-assembly helpers\<close>

text \<open>
  \<^verbatim>\<open>join(maybeArray, separator)\<close>:
  \<^verbatim>\<open>maybeArray ? maybeArray.filter(x => x).join(separator || '') : ''\<close>.
  An array, even an empty one, is truthy.
\<close>

definition join :: "maybeArray \<Rightarrow> string option \<Rightarrow> string" where
  "join maybeArray separator =
     (case maybeArray of
        None \<Rightarrow> []
      | Some array \<Rightarrow>
          array_join (filter truthy array) (if truthy separator then the separator else []))"

text \<open>
  \<^verbatim>\<open>indent(maybeString)\<close>: \<^verbatim>\<open>maybeString && '  ' + maybeString.replace(/\n/g, '\n  ')\<close>.
  Every call in the file passes a string (the result of \<^verbatim>\<open>join\<close>, or the escaped block
  string); on the empty string the guard returns that empty string.
\<close>

definition indent :: "string \<Rightarrow> string" where
  "indent maybeString =
     (if maybeString = [] then maybeString else ''  '' @ replace_newlines maybeString)"

text \<open>\<^verbatim>\<open>block(array)\<close>\<close>

definition block :: "maybeArray \<Rightarrow> string" where
  "block array =
     (if (case array of None \<Rightarrow> False | Some a \<Rightarrow> length a \<noteq> 0)
      then ''{\<newline>'' @ indent (join array (Some ''\<newline>'')) @ ''\<newline>}''
      else [])"

text \<open>
  \<^verbatim>\<open>wrap(start, maybeString, end)\<close>:
  \<^verbatim>\<open>maybeString ? start + maybeString + (end || '') : ''\<close>.
\<close>

definition wrap :: "string \<Rightarrow> maybeString \<Rightarrow> string option \<Rightarrow> string" where
  "wrap start maybeString end' =
     (if truthy maybeString
      then start @ the maybeString @ (if truthy end' then the end' else [])
      else [])"

text \<open>\<^verbatim>\<open>printBlockString(value, isDescription)\<close>\<close>

definition printBlockString :: "string \<Rightarrow> bool \<Rightarrow> string" where
  "printBlockString value isDescription =
     (let escaped = replace_triple_quotes value in
      if (char_at_0 value = Some CHR '' '' \<or> char_at_0 value = Some tab)
         \<and> indexOf value newline = - 1
      then ''\"\"\"'' @ replace_final_quote escaped @ ''\"\"\"''
      else ''\"\"\"\<newline>'' @ (if isDescription then escaped else indent escaped)
           @ ''\<newline>\"\"\"'')"

text \<open>
  \<^verbatim>\<open>addDescription(cb)\<close> is \<^verbatim>\<open>node => join([node.description, cb(node)], '\n')\<close>. The
  embedding passes the node's description and the outcome of \<^verbatim>\<open>cb(node)\<close>; when the
  callback throws, the \<^verbatim>\<open>join\<close> is never reached.
\<close>

definition addDescription :: "maybeString \<Rightarrow> error + string \<Rightarrow> error + string" where
  "addDescription description cb_node =
     (case cb_node of
        Inl e \<Rightarrow> Inl e
      | Inr rendered \<Rightarrow> Inr (join (Some [description, Some rendered]) (Some ''\<newline>'')))"

text \<open>
  \<^verbatim>\<open>args.every(arg => arg.indexOf('\n') === -1)\<close>: reading \<^verbatim>\<open>every\<close> of an absent array
  throws, so does \<^verbatim>\<open>indexOf\<close> of an absent element; \<^verbatim>\<open>every\<close> stops at the first
  element that fails the test.
\<close>

fun every_single_line :: "maybeString list \<Rightarrow> error + bool" where
  "every_single_line [] = Inr True"
| "every_single_line (None # args) = Inl TypeError"
| "every_single_line (Some arg # args) =
     (if indexOf arg newline = - 1 then every_single_line args else Inr False)"

definition args_every_single_line :: "maybeArray \<Rightarrow> error + bool" where
  "args_every_single_line args =
     (case args of None \<Rightarrow> Inl TypeError | Some array \<Rightarrow> every_single_line array)"

subsection \<open>Nodes as the walker presents them\<close>

text \<open>
  The key under which the walker found the node in its parent: a property name, an
  array index, or nothing at the root.
\<close>

datatype visitor_key = NoKey | Index nat | Property string

text \<open>
  One constructor per kind, with the fields the entry reads, in the order it names them.
  A field the entry only ever passes to \<^verbatim>\<open>join\<close>, \<^verbatim>\<open>block\<close> or \<^verbatim>\<open>wrap\<close>, or tests
  for truthiness, may be absent; the others are strings. The argument list of
  \<^verbatim>\<open>FieldDefinition\<close> and \<^verbatim>\<open>DirectiveDefinition\<close> goes to \<^verbatim>\<open>join\<close> too and is typed
  like every other list, although these two entries also call \<^verbatim>\<open>every\<close> on it.
  Type-system definitions carry their description first.
\<close>

datatype node =
    Name string
  | Variable string
  | Document maybeArray
  | OperationDefinition string maybeString maybeArray maybeArray string
  | VariableDefinition string string maybeString
  | SelectionSet maybeArray
  | FieldNode maybeString string maybeArray maybeArray maybeString
  | Argument string string
  | FragmentSpread string maybeArray
  | InlineFragment maybeString maybeArray maybeString
  | FragmentDefinition string string maybeArray maybeArray string
  | IntValue string
  | FloatValue string
  | StringValue string bool
  | BooleanValue bool
  | NullValue
  | EnumValue string
  | ListValue maybeArray
  | ObjectValue maybeArray
  | ObjectField string string
  | Directive string maybeArray
  | NamedType string
  | ListType string
  | NonNullType string
  | SchemaDefinition maybeArray maybeArray
  | OperationTypeDefinition string string
  | ScalarTypeDefinition maybeString string maybeArray
  | ObjectTypeDefinition maybeString string maybeArray maybeArray maybeArray
  | FieldDefinition maybeString string maybeArray string maybeArray
  | InputValueDefinition maybeString string string maybeString maybeArray
  | InterfaceTypeDefinition maybeString string maybeArray maybeArray
  | UnionTypeDefinition maybeString string maybeArray maybeArray
  | EnumTypeDefinition maybeString string maybeArray maybeArray
  | EnumValueDefinition maybeString string maybeArray
  | InputObjectTypeDefinition maybeString string maybeArray maybeArray
  | DirectiveDefinition maybeString string maybeArray maybeArray
  | SchemaExtension maybeArray maybeArray
  | ScalarTypeExtension string maybeArray
  | ObjectTypeExtension string maybeArray maybeArray maybeArray
  | InterfaceTypeExtension string maybeArray maybeArray
  | UnionTypeExtension string maybeArray maybeArray
  | EnumTypeExtension string maybeArray maybeArray
  | InputObjectTypeExtension string maybeArray maybeArray

subsection \<open>The rendering table\<close>

text \<open>
  The two argument layouts of \<^verbatim>\<open>FieldDefinition\<close> and \<^verbatim>\<open>DirectiveDefinition\<close>:
  \<^verbatim>\<open>args.every(...) ? wrap('(', join(args, ', '), ')')
                     : wrap('(\n', indent(join(args, '\n')), '\n)')\<close>.
\<close>

definition definition_args :: "maybeArray \<Rightarrow> error + string" where
  "definition_args args =
     (case args_every_single_line args of
        Inl e \<Rightarrow> Inl e
      | Inr single_line \<Rightarrow>
          Inr (if single_line
               then wrap ''('' (Some (join args (Some '', ''))) (Some '')'')
               else wrap ''(\<newline>'' (Some (indent (join args (Some ''\<newline>''))))
                      (Some ''\<newline>)'')))"

text \<open>
  The member list of a union:
  \<^verbatim>\<open>types && types.length !== 0 ? '= ' + join(types, ' | ') : ''\<close>.
\<close>

definition union_types :: "maybeArray \<Rightarrow> string" where
  "union_types types =
     (if (case types of None \<Rightarrow> False | Some a \<Rightarrow> length a \<noteq> 0)
      then ''= '' @ join types (Some '' | '')
      else [])"

text \<open>
  \<^verbatim>\<open>printDocASTReducer\<close>. \<^verbatim>\<open>JSON.stringify\<close> belongs to the host language and is a
  parameter. Only \<^verbatim>\<open>StringValue\<close> reads the key.
\<close>

primrec printDocASTReducer :: "(string \<Rightarrow> string) \<Rightarrow> node \<Rightarrow> visitor_key \<Rightarrow> error + string" where
  "printDocASTReducer stringify (Name value) key = Inr value"
| "printDocASTReducer stringify (Variable name) key = Inr (''$'' @ name)"
| "printDocASTReducer stringify (Document definitions) key =
     Inr (join definitions (Some ''\<newline>\<newline>'') @ ''\<newline>'')"
| "printDocASTReducer stringify
       (OperationDefinition operation name variableDefinitions directives' selectionSet) key =
     (let op = operation;
          varDefs = wrap ''('' (Some (join variableDefinitions (Some '', ''))) (Some '')'');
          directives = join directives' (Some '' '')
      in Inr (if \<not> truthy name \<and> directives = [] \<and> varDefs = [] \<and> op = ''query''
              then selectionSet
              else join (Some [Some op, Some (join (Some [name, Some varDefs]) None),
                               Some directives, Some selectionSet]) (Some '' '')))"
| "printDocASTReducer stringify (VariableDefinition variable type defaultValue) key =
     Inr (variable @ '': '' @ type @ wrap '' = '' defaultValue None)"
| "printDocASTReducer stringify (SelectionSet selections) key = Inr (block selections)"
| "printDocASTReducer stringify (FieldNode alias name args directives selectionSet) key =
     Inr (join (Some [Some (wrap [] alias (Some '': '') @ name
                            @ wrap ''('' (Some (join args (Some '', ''))) (Some '')'')),
                      Some (join directives (Some '' '')),
                      selectionSet]) (Some '' ''))"
| "printDocASTReducer stringify (Argument name value) key = Inr (name @ '': '' @ value)"
| "printDocASTReducer stringify (FragmentSpread name directives) key =
     Inr (''...'' @ name @ wrap '' '' (Some (join directives (Some '' ''))) None)"
| "printDocASTReducer stringify (InlineFragment typeCondition directives selectionSet) key =
     Inr (join (Some [Some ''...'', Some (wrap ''on '' typeCondition None),
                      Some (join directives (Some '' '')), selectionSet]) (Some '' ''))"
| "printDocASTReducer stringify
       (FragmentDefinition name typeCondition variableDefinitions directives selectionSet) key =
     Inr (''fragment '' @ name
          @ wrap ''('' (Some (join variableDefinitions (Some '', ''))) (Some '')'') @ '' ''
          @ ''on '' @ typeCondition @ '' ''
          @ wrap [] (Some (join directives (Some '' ''))) (Some '' '')
          @ selectionSet)"
| "printDocASTReducer stringify (IntValue value) key = Inr value"
| "printDocASTReducer stringify (FloatValue value) key = Inr value"
| "printDocASTReducer stringify (StringValue value isBlockString) key =
     Inr (if isBlockString
          then printBlockString value (key = Property ''description'')
          else stringify value)"
| "printDocASTReducer stringify (BooleanValue value) key =
     Inr (if value then ''true'' else ''false'')"
| "printDocASTReducer stringify NullValue key = Inr ''null''"
| "printDocASTReducer stringify (EnumValue value) key = Inr value"
| "printDocASTReducer stringify (ListValue values) key =
     Inr (''['' @ join values (Some '', '') @ '']'')"
| "printDocASTReducer stringify (ObjectValue fields) key =
     Inr (''{'' @ join fields (Some '', '') @ ''}'')"
| "printDocASTReducer stringify (ObjectField name value) key = Inr (name @ '': '' @ value)"
| "printDocASTReducer stringify (Directive name args) key =
     Inr (''@'' @ name @ wrap ''('' (Some (join args (Some '', ''))) (Some '')''))"
| "printDocASTReducer stringify (NamedType name) key = Inr name"
| "printDocASTReducer stringify (ListType type) key = Inr (''['' @ type @ '']'')"
| "printDocASTReducer stringify (NonNullType type) key = Inr (type @ ''!'')"
| "printDocASTReducer stringify (SchemaDefinition directives operationTypes) key =
     Inr (join (Some [Some ''schema'', Some (join directives (Some '' '')),
                      Some (block operationTypes)]) (Some '' ''))"
| "printDocASTReducer stringify (OperationTypeDefinition operation type) key =
     Inr (operation @ '': '' @ type)"
| "printDocASTReducer stringify (ScalarTypeDefinition description name directives) key =
     addDescription description
       (Inr (join (Some [Some ''scalar'', Some name, Some (join directives (Some '' ''))])
               (Some '' '')))"
| "printDocASTReducer stringify
       (ObjectTypeDefinition description name interfaces directives fields) key =
     addDescription description
       (Inr (join (Some [Some ''type'', Some name,
                         Some (wrap ''implements '' (Some (join interfaces (Some '' & ''))) None),
                         Some (join directives (Some '' '')),
                         Some (block fields)]) (Some '' '')))"
| "printDocASTReducer stringify (FieldDefinition description name args type directives) key =
     addDescription description
       (case definition_args args of
          Inl e \<Rightarrow> Inl e
        | Inr arguments \<Rightarrow>
            Inr (name @ arguments @ '': '' @ type
                 @ wrap '' '' (Some (join directives (Some '' ''))) None))"
| "printDocASTReducer stringify
       (InputValueDefinition description name type defaultValue directives) key =
     addDescription description
       (Inr (join (Some [Some (name @ '': '' @ type), Some (wrap ''= '' defaultValue None),
                         Some (join directives (Some '' ''))]) (Some '' '')))"
| "printDocASTReducer stringify (InterfaceTypeDefinition description name directives fields) key =
     addDescription description
       (Inr (join (Some [Some ''interface'', Some name, Some (join directives (Some '' '')),
                         Some (block fields)]) (Some '' '')))"
| "printDocASTReducer stringify (UnionTypeDefinition description name directives types) key =
     addDescription description
       (Inr (join (Some [Some ''union'', Some name, Some (join directives (Some '' '')),
                         Some (union_types types)]) (Some '' '')))"
| "printDocASTReducer stringify (EnumTypeDefinition description name directives values) key =
     addDescription description
       (Inr (join (Some [Some ''enum'', Some name, Some (join directives (Some '' '')),
                         Some (block values)]) (Some '' '')))"
| "printDocASTReducer stringify (EnumValueDefinition description name directives) key =
     addDescription description
       (Inr (join (Some [Some name, Some (join directives (Some '' ''))]) (Some '' '')))"
| "printDocASTReducer stringify
       (InputObjectTypeDefinition description name directives fields) key =
     addDescription description
       (Inr (join (Some [Some ''input'', Some name, Some (join directives (Some '' '')),
                         Some (block fields)]) (Some '' '')))"
| "printDocASTReducer stringify (DirectiveDefinition description name args locations) key =
     addDescription description
       (case definition_args args of
          Inl e \<Rightarrow> Inl e
        | Inr arguments \<Rightarrow>
            Inr (''directive @'' @ name @ arguments @ '' on ''
                 @ join locations (Some '' | '')))"
| "printDocASTReducer stringify (SchemaExtension directives operationTypes) key =
     Inr (join (Some [Some ''extend schema'', Some (join directives (Some '' '')),
                      Some (block operationTypes)]) (Some '' ''))"
| "printDocASTReducer stringify (ScalarTypeExtension name directives) key =
     Inr (join (Some [Some ''extend scalar'', Some name, Some (join directives (Some '' ''))])
            (Some '' ''))"
| "printDocASTReducer stringify (ObjectTypeExtension name interfaces directives fields) key =
     Inr (join (Some [Some ''extend type'', Some name,
                      Some (wrap ''implements '' (Some (join interfaces (Some '' & ''))) None),
                      Some (join directives (Some '' '')),
                      Some (block fields)]) (Some '' ''))"
| "printDocASTReducer stringify (InterfaceTypeExtension name directives fields) key =
     Inr (join (Some [Some ''extend interface'', Some name, Some (join directives (Some '' '')),
                      Some (block fields)]) (Some '' ''))"
| "printDocASTReducer stringify (UnionTypeExtension name directives types) key =
     Inr (join (Some [Some ''extend union'', Some name, Some (join directives (Some '' '')),
                      Some (union_types types)]) (Some '' ''))"
| "printDocASTReducer stringify (EnumTypeExtension name directives values) key =
     Inr (join (Some [Some ''extend enum'', Some name, Some (join directives (Some '' '')),
                      Some (block values)]) (Some '' ''))"
| "printDocASTReducer stringify (InputObjectTypeExtension name directives fields) key =
     Inr (join (Some [Some ''extend input'', Some name, Some (join directives (Some '' '')),
                      Some (block fields)]) (Some '' ''))"

subsection \<open>Vocabulary of the statements\<close>

text \<open>
  The properties below speak of strings joined by a separator, of the members of an
  array that survive \<^verbatim>\<open>filter(x => x)\<close>, and of the lines of a text. A text is cut at
  every newline character, so a text that ends in a newline has a last, empty line; the
  empty text has no line at all.
\<close>

fun intercalate :: "string \<Rightarrow> string list \<Rightarrow> string" where
  "intercalate sep [] = []"
| "intercalate sep [x] = x"
| "intercalate sep (x # y # ys) = x @ sep @ intercalate sep (y # ys)"

fun present :: "maybeString list \<Rightarrow> string list" where
  "present [] = []"
| "present (None # ms) = present ms"
| "present (Some s # ms) = (if s = [] then present ms else s # present ms)"

fun split_lines :: "string \<Rightarrow> string list" where
  "split_lines [] = [[]]"
| "split_lines (c # cs) =
     (if c = newline then [] # split_lines cs
      else (case split_lines cs of [] \<Rightarrow> [[c]] | line # lines \<Rightarrow> (c # line) # lines))"

definition members :: "maybeArray \<Rightarrow> string list" where
  "members maybeArray = (case maybeArray of None \<Rightarrow> [] | Some array \<Rightarrow> present array)"

definition text_lines :: "string \<Rightarrow> string list" where
  "text_lines s = (if s = [] then [] else split_lines s)"

definition indent_line :: "string \<Rightarrow> string" where
  "indent_line line = ''  '' @ line"

definition indent_every_line :: "string \<Rightarrow> string" where
  "indent_every_line s = intercalate ''\<newline>'' (map indent_line (text_lines s))"

text \<open>
  The nodes whose entry can run to completion as far as its argument list goes: the two
  entries that call \<^verbatim>\<open>args.every\<close> need the list and each of its elements.
\<close>

definition arguments_present :: "node \<Rightarrow> bool" where
  "arguments_present n =
     (case n of
        FieldDefinition description name args type directives \<Rightarrow>
          (case args of None \<Rightarrow> False | Some array \<Rightarrow> None \<notin> set array)
      | DirectiveDefinition description name args locations \<Rightarrow>
          (case args of None \<Rightarrow> False | Some array \<Rightarrow> None \<notin> set array)
      | _ \<Rightarrow> True)"

subsection \<open>Facts about the helpers\<close>

lemma indexOf_ge: "- 1 \<le> indexOf s c"
  by (induction s) (auto simp: Let_def)

lemma indexOf_absent: "indexOf s c = - 1 \<longleftrightarrow> c \<notin> set s"
proof (induction s)
  case Nil
  show ?case by simp
next
  case (Cons x xs)
  have "- 1 \<le> indexOf xs c" by (rule indexOf_ge)
  with Cons show ?case by (auto simp: Let_def)
qed

lemma intercalate_Cons:
  "intercalate sep (x # xs) = x @ (if xs = [] then [] else sep @ intercalate sep xs)"
  by (cases xs) simp_all

lemma filter_truthy_present: "filter truthy ms = map Some (present ms)"
  by (induction ms rule: present.induct) (simp_all add: truthy_def)

lemma array_join_Some: "array_join (map Some xs) sep = intercalate sep xs"
  by (induction sep xs rule: intercalate.induct) (simp_all add: element_text_def)

lemma join_Some: "join (Some ms) (Some sep) = intercalate sep (present ms)"
  by (simp add: join_def filter_truthy_present array_join_Some truthy_def)

lemma intercalate_no_separator: "intercalate [] xs = concat xs"
  by (induction "[] :: string" xs rule: intercalate.induct) simp_all

lemma join_no_separator: "join (Some ms) None = concat (present ms)"
  by (simp add: join_def filter_truthy_present array_join_Some truthy_def
      intercalate_no_separator)

lemma split_lines_not_Nil: "split_lines s \<noteq> []"
  by (induction s) (simp_all split: list.split)

lemma indent_replace:
  "''  '' @ replace_newlines s = intercalate ''\<newline>'' (map indent_line (split_lines s))"
proof (induction s)
  case Nil
  show ?case by (simp add: indent_line_def)
next
  case (Cons c cs)
  obtain l ls where L: "split_lines cs = l # ls"
    using split_lines_not_Nil [of cs] by (cases "split_lines cs") auto
  show ?case
    using Cons L by (simp add: intercalate_Cons indent_line_def)
qed

lemma indent_lines: "indent s = indent_every_line s"
proof (cases "s = []")
  case True
  then show ?thesis by (simp add: indent_def indent_every_line_def text_lines_def)
next
  case False
  then show ?thesis
    unfolding indent_def indent_every_line_def text_lines_def
    using indent_replace [of s] by simp
qed

lemma split_lines_append:
  "split_lines (a @ newline # b) = split_lines a @ split_lines b"
proof (induction a)
  case Nil
  show ?case by simp
next
  case (Cons c cs)
  obtain l ls where L: "split_lines cs = l # ls"
    using split_lines_not_Nil [of cs] by (cases "split_lines cs") auto
  show ?case using Cons L by simp
qed

lemma split_lines_intercalate:
  "xs \<noteq> [] \<Longrightarrow> split_lines (intercalate ''\<newline>'' xs) = concat (map split_lines xs)"
  by (induction "''\<newline>''" xs rule: intercalate.induct) (simp_all add: split_lines_append)

lemma intercalate_Nil_iff:
  "\<forall>x \<in> set xs. x \<noteq> [] \<Longrightarrow> intercalate sep xs = [] \<longleftrightarrow> xs = []"
  by (cases xs) (auto simp: intercalate_Cons)

lemma present_nonempty: "\<forall>x \<in> set (present ms). x \<noteq> []"
proof (induction ms)
  case Nil
  show ?case by simp
next
  case (Cons m ms)
  then show ?case by (cases m) simp_all
qed

lemma text_lines_join:
  "text_lines (intercalate ''\<newline>'' (present ms)) = concat (map split_lines (present ms))"
  using intercalate_Nil_iff [OF present_nonempty, of "''\<newline>''" ms]
  by (auto simp: text_lines_def split_lines_intercalate)

lemma join_members: "join maybeArray (Some sep) = intercalate sep (members maybeArray)"
  by (cases maybeArray) (simp_all add: members_def join_Some, simp add: join_def)

lemma present_map_Some: "present (map Some xs) = filter (\<lambda>s. s \<noteq> []) xs"
  by (induction xs) simp_all

lemma present_all_empty: "\<forall>m \<in> set ms. m = Some [] \<Longrightarrow> present ms = []"
proof (induction ms)
  case Nil
  show ?case by simp
next
  case (Cons m ms)
  then show ?case by (cases m) simp_all
qed

lemma replace_final_quote_append:
  "replace_final_quote s = (if s \<noteq> [] \<and> last s = CHR ''\"'' then s @ ''\<newline>'' else s)"
proof (cases "s \<noteq> [] \<and> last s = CHR ''\"''")
  case True
  then have "butlast s @ [CHR ''\"''] = s"
    using append_butlast_last_id [of s] by simp
  then have "butlast s @ ''\"\<newline>'' = s @ ''\<newline>''"
    by (metis append.assoc append_Cons append_Nil)
  with True show ?thesis
    unfolding replace_final_quote_def by (simp only: if_True simp_thms)
next
  case False
  then show ?thesis
    unfolding replace_final_quote_def by (simp only: if_False)
qed

lemma char_at_0_hd:
  "(char_at_0 s = Some a \<or> char_at_0 s = Some b) \<longleftrightarrow> s \<noteq> [] \<and> hd s \<in> {a, b}"
  by (cases s) (simp_all add: char_at_0_def)

subsection \<open>Facts about the entries\<close>

lemma every_single_line_Some:
  "every_single_line (map Some as) = Inr (\<forall>a \<in> set as. newline \<notin> set a)"
  by (induction as) (simp_all add: indexOf_absent)

lemma wrap_Some:
  "wrap start (Some s) (Some e) = (if s = [] then [] else start @ s @ e)"
  by (simp add: wrap_def truthy_def)

lemma wrap_no_end:
  "wrap start (Some s) None = (if s = [] then [] else start @ s)"
  by (simp add: wrap_def truthy_def)

lemma present_Some_nonempty:
  "\<forall>a \<in> set as. a \<noteq> [] \<Longrightarrow> present (map Some as) = as"
  by (induction as) simp_all

lemma indent_Nil_iff: "indent s = [] \<longleftrightarrow> s = []"
  by (simp add: indent_def)

lemma definition_args_single_line:
  assumes "as \<noteq> []" and "\<forall>a \<in> set as. a \<noteq> []" and "\<forall>a \<in> set as. newline \<notin> set a"
  shows "definition_args (Some (map Some as)) = Inr (''('' @ intercalate '', '' as @ '')'')"
proof -
  have "intercalate '', '' as \<noteq> []"
    using assms(1,2) by (simp add: intercalate_Nil_iff)
  then show ?thesis
    using assms(2,3)
    by (simp add: definition_args_def args_every_single_line_def every_single_line_Some
        join_Some present_Some_nonempty wrap_Some)
qed

lemma definition_args_multi_line:
  assumes "\<forall>a \<in> set as. a \<noteq> []" and "\<exists>a \<in> set as. newline \<in> set a"
  shows "definition_args (Some (map Some as)) =
           Inr (''(\<newline>'' @ indent_every_line (intercalate ''\<newline>'' as) @ ''\<newline>)'')"
proof -
  from assms(2) have "as \<noteq> []" by auto
  then have "intercalate ''\<newline>'' as \<noteq> []"
    using assms(1) by (simp add: intercalate_Nil_iff)
  then have "indent (intercalate ''\<newline>'' as) \<noteq> []"
    by (simp add: indent_Nil_iff)
  moreover have "every_single_line (map Some as) = Inr False"
    using assms(2) by (simp add: every_single_line_Some)
  ultimately show ?thesis
    using assms(1)
    by (simp add: definition_args_def args_every_single_line_def
        join_Some present_Some_nonempty wrap_Some indent_lines)
qed

lemma set_intercalate: "set (intercalate sep xs) \<subseteq> set sep \<union> \<Union> (set ` set xs)"
  by (induction sep xs rule: intercalate.induct) auto

lemma addDescription_Inr:
  "addDescription description (Inr s) = Inr (intercalate ''\<newline>'' (present [description, Some s]))"
  by (simp add: addDescription_def join_Some)

lemma join_two_no_separator:
  "join (Some [name, Some s]) None = element_text name @ s"
  by (cases name) (simp_all add: join_no_separator element_text_def)

lemma intercalate_present_Nil_iff: "intercalate sep (present ms) = [] \<longleftrightarrow> present ms = []"
  using intercalate_Nil_iff [OF present_nonempty] .

lemma join_parts:
  "join (Some (map Some parts)) (Some sep) = intercalate sep (filter (\<lambda>part. part \<noteq> []) parts)"
  by (simp add: join_Some present_map_Some)

lemma InputValueDefinition_not_empty:
  assumes "printDocASTReducer stringify
             (InputValueDefinition description name type defaultValue directives) key = Inr s"
  shows "s \<noteq> []"
proof -
  let ?rendered = "join (Some [Some (name @ '': '' @ type), Some (wrap ''= '' defaultValue None),
                     Some (join directives (Some '' ''))]) (Some '' '')"
  have "?rendered \<noteq> []"
    by (simp add: join_Some intercalate_present_Nil_iff)
  then have "join (Some [description, Some ?rendered]) (Some ''\<newline>'') \<noteq> []"
    by (cases description) (simp_all add: join_Some intercalate_present_Nil_iff)
  with assms show ?thesis
    by (simp add: addDescription_def)
qed

lemma union_types_empty: "union_types None = [] \<and> union_types (Some []) = []"
  by (simp add: union_types_def)

lemma union_types_two:
  "a \<noteq> [] \<Longrightarrow> b \<noteq> [] \<Longrightarrow> union_types (Some [Some a, Some b]) = ''= '' @ a @ '' | '' @ b"
  by (simp add: union_types_def join_Some)

lemma absent_is_empty:
  "join None separator = join (Some []) separator"
  "block None = block (Some [])"
  "wrap start None end' = wrap start (Some []) end'"
  "union_types None = union_types (Some [])"
  by (simp_all add: join_def block_def wrap_def truthy_def union_types_def)

lemma every_single_line_present:
  "None \<notin> set array \<Longrightarrow> \<exists>b. every_single_line array = Inr b"
proof (induction array)
  case Nil
  show ?case by auto
next
  case (Cons m ms)
  then show ?case by (cases m) auto
qed

lemma definition_args_present:
  "None \<notin> set array \<Longrightarrow> \<exists>s. definition_args (Some array) = Inr s"
  using every_single_line_present [of array]
  by (auto simp: definition_args_def args_every_single_line_def)

lemma entries_total:
  "arguments_present n \<Longrightarrow> \<exists>s. printDocASTReducer stringify n key = Inr s"
proof (cases n)
  case (FieldDefinition description name args type directives)
  assume "arguments_present n"
  with FieldDefinition obtain array where "args = Some array" "None \<notin> set array"
    by (auto simp: arguments_present_def split: option.splits)
  with FieldDefinition definition_args_present [of array] show ?thesis
    by (auto simp: addDescription_def)
next
  case (DirectiveDefinition description name args locations)
  assume "arguments_present n"
  with DirectiveDefinition obtain array where "args = Some array" "None \<notin> set array"
    by (auto simp: arguments_present_def split: option.splits)
  with DirectiveDefinition definition_args_present [of array] show ?thesis
    by (auto simp: addDescription_def)
qed (simp_all add: addDescription_def Let_def)

section \<open>The properties\<close>

text \<open>
  Claim C1 (as amended). The block string whose value is a space followed by \<^verbatim>\<open>hello\<close>
  has leading whitespace and no newline, so it is printed between the triple quotes as
  it is: no blank line is added in front, the leading space stays, and, the value not
  ending in a quote, the closing triple quote follows the value on the same line.
  This holds under every key, also for a description.
\<close>

theorem StringValue_leading_space_block:
  "printDocASTReducer stringify (StringValue '' hello'' True) key = Inr ''\"\"\" hello\"\"\"''"
  by (simp add: printBlockString_def char_at_0_def replace_final_quote_def)

theorem StringValue_leading_space_no_newline:
  "printDocASTReducer id (StringValue '' hello'' True) (Property ''value'')
     \<noteq> Inr ''\"\"\" hello\<newline>\"\"\"''"
  by (simp add: printBlockString_def char_at_0_def replace_final_quote_def)

text \<open>
  Claim C2. \<^verbatim>\<open>printBlockString\<close> has two layouts. A value that starts with a space or a
  tab and has no newline is printed between the triple quotes, escaped, with a newline
  appended when the escaped value ends in a quote; nothing else is added before or
  after it. Every other value is printed on lines of its own between the triple quotes:
  the escaped value as it is for a description, and with each of its lines indented by
  two spaces otherwise (the empty value has no line, and its body is empty).
\<close>

theorem printBlockString_layout:
  "printBlockString value isDescription =
     (let escaped = replace_triple_quotes value in
      if value \<noteq> [] \<and> hd value \<in> {CHR '' '', tab} \<and> newline \<notin> set value
      then ''\"\"\"''
           @ (if escaped \<noteq> [] \<and> last escaped = CHR ''\"'' then escaped @ ''\<newline>'' else escaped)
           @ ''\"\"\"''
      else ''\"\"\"\<newline>''
           @ (if isDescription then escaped else indent_every_line escaped)
           @ ''\<newline>\"\"\"'')"
  unfolding printBlockString_def Let_def char_at_0_hd indexOf_absent
    replace_final_quote_append indent_lines
  by (simp only: conj_assoc)

theorem printBlockString_layout_witness:
  "printBlockString (tab # ''say \"\"\"hi\"\"\"'') False =
     ''\"\"\"'' @ tab # ''say '' @ backslash # ''\"\"\"hi'' @ backslash # ''\"\"\"\<newline>\"\"\"'' \<and>
   printBlockString ''a \"\"\"\"\<newline>\<newline>b'' False =
     ''\"\"\"\<newline>  a '' @ backslash # ''\"\"\"\"\<newline>  \<newline>  b\<newline>\"\"\"'' \<and>
   printBlockString ''a \"\"\"\"\<newline>\<newline>b'' True =
     ''\"\"\"\<newline>a '' @ backslash # ''\"\"\"\"\<newline>\<newline>b\<newline>\"\"\"'' \<and>
   printBlockString [] False = ''\"\"\"\<newline>\<newline>\"\"\"''"
  using printBlockString_layout [of "tab # ''say \"\"\"hi\"\"\"''" False]
    printBlockString_layout [of "''a \"\"\"\"\<newline>\<newline>b''" False]
    printBlockString_layout [of "''a \"\"\"\"\<newline>\<newline>b''" True]
    printBlockString_layout [of "[]" False]
  by (simp add: indent_every_line_def text_lines_def indent_line_def)

text \<open>
  Claim C3. The entries are meant to treat an absent optional field as an empty
  contribution. \<^verbatim>\<open>FieldDefinition\<close> and \<^verbatim>\<open>DirectiveDefinition\<close> do not: they call
  \<^verbatim>\<open>args.every\<close> before handing the same \<^verbatim>\<open>args\<close> to \<^verbatim>\<open>join\<close>, so a node without an
  argument list makes them throw, whatever its other fields are.
\<close>

theorem definition_entries_throw_without_arguments:
  "printDocASTReducer stringify (FieldDefinition description name None type directives) key
     = Inl TypeError \<and>
   printDocASTReducer stringify (DirectiveDefinition description name None locations) key
     = Inl TypeError"
  by (simp add: definition_args_def args_every_single_line_def addDescription_def)

text \<open>
  Claim C4. A \<^verbatim>\<open>FieldDefinition\<close> or \<^verbatim>\<open>DirectiveDefinition\<close> with at least one
  argument, the arguments being rendered (hence non-empty) strings: when no argument
  contains a newline, they are joined by a comma and a space between parentheses, and
  that segment has no newline; when some argument contains a newline, the opening and
  the closing parenthesis stand on lines of their own and between them every line of
  every argument is indented by two spaces, each argument starting a new line.
\<close>

theorem definition_arguments_layout:
  assumes "as \<noteq> []" and "\<forall>a \<in> set as. a \<noteq> []"
  shows
    "((\<forall>a \<in> set as. newline \<notin> set a) \<longrightarrow>
        printDocASTReducer stringify
            (FieldDefinition description name (Some (map Some as)) type directives) key =
          addDescription description
            (Inr (name @ ''('' @ intercalate '', '' as @ '')'' @ '': '' @ type
                  @ wrap '' '' (Some (join directives (Some '' ''))) None)) \<and>
        printDocASTReducer stringify
            (DirectiveDefinition description name (Some (map Some as)) locations) key =
          addDescription description
            (Inr (''directive @'' @ name @ ''('' @ intercalate '', '' as @ '')'' @ '' on ''
                  @ join locations (Some '' | ''))) \<and>
        newline \<notin> set (''('' @ intercalate '', '' as @ '')'')) \<and>
     ((\<exists>a \<in> set as. newline \<in> set a) \<longrightarrow>
        printDocASTReducer stringify
            (FieldDefinition description name (Some (map Some as)) type directives) key =
          addDescription description
            (Inr (name @ ''(\<newline>'' @ indent_every_line (intercalate ''\<newline>'' as) @ ''\<newline>)''
                  @ '': '' @ type @ wrap '' '' (Some (join directives (Some '' ''))) None)) \<and>
        printDocASTReducer stringify
            (DirectiveDefinition description name (Some (map Some as)) locations) key =
          addDescription description
            (Inr (''directive @'' @ name
                  @ ''(\<newline>'' @ indent_every_line (intercalate ''\<newline>'' as) @ ''\<newline>)''
                  @ '' on '' @ join locations (Some '' | ''))))"
proof (intro conjI impI)
  assume single: "\<forall>a \<in> set as. newline \<notin> set a"
  note args = definition_args_single_line [OF assms single]
  show "printDocASTReducer stringify
            (FieldDefinition description name (Some (map Some as)) type directives) key =
          addDescription description
            (Inr (name @ ''('' @ intercalate '', '' as @ '')'' @ '': '' @ type
                  @ wrap '' '' (Some (join directives (Some '' ''))) None))"
    by (simp add: args)
  show "printDocASTReducer stringify
            (DirectiveDefinition description name (Some (map Some as)) locations) key =
          addDescription description
            (Inr (''directive @'' @ name @ ''('' @ intercalate '', '' as @ '')'' @ '' on ''
                  @ join locations (Some '' | '')))"
    by (simp add: args)
  show "newline \<notin> set (''('' @ intercalate '', '' as @ '')'')"
    using single set_intercalate [of "'', ''" as] by auto
next
  assume multi: "\<exists>a \<in> set as. newline \<in> set a"
  note args = definition_args_multi_line [OF assms(2) multi]
  show "printDocASTReducer stringify
            (FieldDefinition description name (Some (map Some as)) type directives) key =
          addDescription description
            (Inr (name @ ''(\<newline>'' @ indent_every_line (intercalate ''\<newline>'' as) @ ''\<newline>)''
                  @ '': '' @ type @ wrap '' '' (Some (join directives (Some '' ''))) None))"
    by (simp add: args)
  show "printDocASTReducer stringify
            (DirectiveDefinition description name (Some (map Some as)) locations) key =
          addDescription description
            (Inr (''directive @'' @ name
                  @ ''(\<newline>'' @ indent_every_line (intercalate ''\<newline>'' as) @ ''\<newline>)''
                  @ '' on '' @ join locations (Some '' | '')))"
    by (simp add: args)
qed

theorem definition_arguments_layout_witness:
  "printDocASTReducer id
       (FieldDefinition None ''f'' (Some (map Some [''a: Int'', ''b: Int''])) ''T'' None) NoKey =
     Inr ''f(a: Int, b: Int): T'' \<and>
   printDocASTReducer id
       (DirectiveDefinition None ''d''
          (Some (map Some [''a: Int'', ''\"\"\"\<newline>doc\<newline>\"\"\"\<newline>b: Int'']))
          (Some [Some ''FIELD''])) NoKey =
     Inr ''directive @d(\<newline>  a: Int\<newline>  \"\"\"\<newline>  doc\<newline>  \"\"\"\<newline>  b: Int\<newline>) on FIELD''"
proof -
  let ?one = "[''a: Int'', ''b: Int'']"
  let ?two = "[''a: Int'', ''\"\"\"\<newline>doc\<newline>\"\"\"\<newline>b: Int'']"
  have ne1: "?one \<noteq> []" and ne2: "?two \<noteq> []"
    by simp_all
  have el1: "\<forall>a \<in> set ?one. a \<noteq> []" and el2: "\<forall>a \<in> set ?two. a \<noteq> []"
    by simp_all
  have single: "\<forall>a \<in> set ?one. newline \<notin> set a"
    by simp
  have multi: "\<exists>a \<in> set ?two. newline \<in> set a"
    by simp
  have "printDocASTReducer id
          (FieldDefinition None ''f'' (Some (map Some ?one)) ''T'' None) NoKey =
        addDescription None
          (Inr (''f'' @ ''('' @ intercalate '', '' ?one @ '')'' @ '': '' @ ''T''
                @ wrap '' '' (Some (join None (Some '' ''))) None))"
    using definition_arguments_layout [OF ne1 el1] single by blast
  moreover have "printDocASTReducer id
          (DirectiveDefinition None ''d'' (Some (map Some ?two)) (Some [Some ''FIELD''])) NoKey =
        addDescription None
          (Inr (''directive @'' @ ''d''
                @ ''(\<newline>'' @ indent_every_line (intercalate ''\<newline>'' ?two) @ ''\<newline>)''
                @ '' on '' @ join (Some [Some ''FIELD'']) (Some '' | '')))"
    using definition_arguments_layout [OF ne2 el2] multi by blast
  moreover have "split_lines (intercalate ''\<newline>'' ?two) =
      [''a: Int'', ''\"\"\"'', ''doc'', ''\"\"\"'', ''b: Int'']"
    by simp
  ultimately show ?thesis
    by (simp add: addDescription_Inr join_members members_def wrap_no_end
        indent_every_line_def text_lines_def indent_line_def)
qed

text \<open>
  Claim C5. An \<^verbatim>\<open>OperationDefinition\<close> whose operation is \<^verbatim>\<open>query\<close> and which has no
  name, no directive and no variable definition is printed as its selection set alone.
  Every other one is printed as the operation, the name directly followed by the
  variable definitions in parentheses (joined by a comma and a space; no parentheses
  without variable definitions), the directives (joined by a space) and the selection
  set, where only the parts that are not empty are kept and exactly one space stands
  between two kept parts.
\<close>

theorem OperationDefinition_shorthand_or_full:
  "printDocASTReducer stringify
       (OperationDefinition operation name variableDefinitions directives selectionSet) key =
     Inr (if operation = ''query'' \<and> \<not> truthy name \<and> members directives = []
             \<and> members variableDefinitions = []
          then selectionSet
          else intercalate '' ''
                 (filter (\<lambda>part. part \<noteq> [])
                    [operation,
                     element_text name
                       @ (if members variableDefinitions = [] then []
                          else ''('' @ intercalate '', '' (members variableDefinitions) @ '')''),
                     intercalate '' '' (members directives),
                     selectionSet]))"
proof -
  have empty: "intercalate sep (members a) = [] \<longleftrightarrow> members a = []" for sep a
    by (cases a) (simp_all add: members_def intercalate_Nil_iff present_nonempty)
  have parts: "join (Some (map Some xs)) (Some '' '') = intercalate '' '' (filter (\<lambda>part. part \<noteq> []) xs)"
    for xs
    by (simp add: join_Some present_map_Some)
  show ?thesis
    using parts [of "[operation, x, y, selectionSet]" for x y]
    by (auto simp add: Let_def join_members wrap_Some empty join_two_no_separator
        simp del: intercalate.simps filter.simps)
qed

theorem OperationDefinition_shorthand_or_full_witness:
  "printDocASTReducer id
       (OperationDefinition ''query'' None None (Some []) ''{\<newline>  a\<newline>}'') NoKey =
     Inr ''{\<newline>  a\<newline>}'' \<and>
   printDocASTReducer id
       (OperationDefinition ''query'' (Some ''Q'') (Some [Some ''$x: Int'', Some ''$y: Int''])
          None ''{\<newline>  a\<newline>}'') NoKey =
     Inr ''query Q($x: Int, $y: Int) {\<newline>  a\<newline>}'' \<and>
   printDocASTReducer id
       (OperationDefinition ''mutation'' None None (Some [Some ''@a'', Some ''@b''])
          ''{\<newline>  a\<newline>}'') NoKey =
     Inr ''mutation @a @b {\<newline>  a\<newline>}''"
  using
    OperationDefinition_shorthand_or_full [of id "''query''" None None "Some []"
      "''{\<newline>  a\<newline>}''" NoKey]
    OperationDefinition_shorthand_or_full [of id "''query''" "Some ''Q''"
      "Some [Some ''$x: Int'', Some ''$y: Int'']" None "''{\<newline>  a\<newline>}''" NoKey]
    OperationDefinition_shorthand_or_full [of id "''mutation''" None None
      "Some [Some ''@a'', Some ''@b'']" "''{\<newline>  a\<newline>}''" NoKey]
  by (simp add: members_def truthy_def element_text_def)

text \<open>
  Claim C6. A union definition or extension whose list of member types is absent or
  empty is printed from the keyword, the name and the directives alone: no part
  starting with \<^verbatim>\<open>=\<close> is there. With the two members \<open>a\<close> and \<open>b\<close> the part
  \<^verbatim>\<open>= a | b\<close> is added after them; so the definition named \<^verbatim>\<open>Name\<close> with members
  \<^verbatim>\<open>A\<close> and \<^verbatim>\<open>B\<close> is printed as \<^verbatim>\<open>union Name = A | B\<close>.
\<close>

theorem union_member_list:
  "(types = None \<or> types = Some [] \<longrightarrow>
      printDocASTReducer stringify (UnionTypeDefinition description name directives types) key =
        addDescription description
          (Inr (intercalate '' ''
                  (filter (\<lambda>part. part \<noteq> [])
                     [''union'', name, join directives (Some '' '')]))) \<and>
      printDocASTReducer stringify (UnionTypeExtension name directives types) key =
        Inr (intercalate '' ''
               (filter (\<lambda>part. part \<noteq> [])
                  [''extend union'', name, join directives (Some '' '')]))) \<and>
   (a \<noteq> [] \<and> b \<noteq> [] \<longrightarrow>
      printDocASTReducer stringify
          (UnionTypeDefinition description name directives (Some [Some a, Some b])) key =
        addDescription description
          (Inr (intercalate '' ''
                  (filter (\<lambda>part. part \<noteq> [])
                     [''union'', name, join directives (Some '' ''), ''= '' @ a @ '' | '' @ b]))) \<and>
      printDocASTReducer stringify
          (UnionTypeExtension name directives (Some [Some a, Some b])) key =
        Inr (intercalate '' ''
               (filter (\<lambda>part. part \<noteq> [])
                  [''extend union'', name, join directives (Some '' ''),
                   ''= '' @ a @ '' | '' @ b]))) \<and>
   printDocASTReducer stringify
       (UnionTypeDefinition None ''Name'' None (Some [Some ''A'', Some ''B''])) key =
     Inr ''union Name = A | B''"
proof (intro conjI impI)
  assume "types = None \<or> types = Some []"
  then have none: "union_types types = []"
    using union_types_empty by auto
  show "printDocASTReducer stringify (UnionTypeDefinition description name directives types) key =
        addDescription description
          (Inr (intercalate '' ''
                  (filter (\<lambda>part. part \<noteq> [])
                     [''union'', name, join directives (Some '' '')])))"
    using join_parts [of "[''union'', name, join directives (Some '' ''), []]" "'' ''"]
    by (simp add: none)
  show "printDocASTReducer stringify (UnionTypeExtension name directives types) key =
        Inr (intercalate '' ''
               (filter (\<lambda>part. part \<noteq> [])
                  [''extend union'', name, join directives (Some '' '')]))"
    using join_parts [of "[''extend union'', name, join directives (Some '' ''), []]" "'' ''"]
    by (simp add: none)
next
  assume "a \<noteq> [] \<and> b \<noteq> []"
  then have two: "union_types (Some [Some a, Some b]) = ''= '' @ a @ '' | '' @ b"
    by (simp add: union_types_two)
  show "printDocASTReducer stringify
          (UnionTypeDefinition description name directives (Some [Some a, Some b])) key =
        addDescription description
          (Inr (intercalate '' ''
                  (filter (\<lambda>part. part \<noteq> [])
                     [''union'', name, join directives (Some '' ''), ''= '' @ a @ '' | '' @ b])))"
    using join_parts [of "[''union'', name, join directives (Some '' ''),
        ''= '' @ a @ '' | '' @ b]" "'' ''"]
    by (simp add: two)
  show "printDocASTReducer stringify
          (UnionTypeExtension name directives (Some [Some a, Some b])) key =
        Inr (intercalate '' ''
               (filter (\<lambda>part. part \<noteq> [])
                  [''extend union'', name, join directives (Some '' ''),
                   ''= '' @ a @ '' | '' @ b]))"
    using join_parts [of "[''extend union'', name, join directives (Some '' ''),
        ''= '' @ a @ '' | '' @ b]" "'' ''"]
    by (simp add: two)
next
  show "printDocASTReducer stringify
       (UnionTypeDefinition None ''Name'' None (Some [Some ''A'', Some ''B''])) key =
     Inr ''union Name = A | B''"
    by (simp add: union_types_def addDescription_Inr join_members members_def)
qed

theorem union_member_list_witness:
  "printDocASTReducer id (UnionTypeDefinition None ''Name'' (Some [Some ''@d'']) (Some [])) NoKey =
     Inr ''union Name @d'' \<and>
   printDocASTReducer id (UnionTypeExtension ''Name'' None None) NoKey =
     Inr ''extend union Name'' \<and>
   printDocASTReducer id
       (UnionTypeDefinition (Some ''\"\"\"\<newline>doc\<newline>\"\"\"'') ''Name'' None
          (Some [Some ''A'', Some ''B''])) NoKey =
     Inr ''\"\"\"\<newline>doc\<newline>\"\"\"\<newline>union Name = A | B'' \<and>
   printDocASTReducer id
       (UnionTypeExtension ''Name'' None (Some [Some ''A'', Some ''B''])) NoKey =
     Inr ''extend union Name = A | B''"
  using
    union_member_list [where types = "Some []" and stringify = id and description = None
      and name = "''Name''" and directives = "Some [Some ''@d'']" and key = NoKey]
    union_member_list [where types = None and stringify = id
      and name = "''Name''" and directives = None and key = NoKey]
    union_member_list [where a = "''A''" and b = "''B''" and stringify = id
      and description = "Some ''\"\"\"\<newline>doc\<newline>\"\"\"''"
      and name = "''Name''" and directives = None and key = NoKey]
  by (simp add: addDescription_Inr join_members members_def)

text \<open>
  Claim C7. \<^verbatim>\<open>block\<close> of an absent or empty array is the empty string. For an array
  with at least one element it is an opening brace, a newline, the members joined by
  newlines with every line of that text indented by two spaces, a newline and a closing
  brace. In no case is the result a pair of braces with nothing between them.
\<close>

theorem block_indents_joined_members:
  "block None = [] \<and> block (Some []) = [] \<and>
   (ms \<noteq> [] \<longrightarrow>
      block (Some ms) =
        ''{\<newline>'' @ indent_every_line (intercalate ''\<newline>'' (present ms)) @ ''\<newline>}'') \<and>
   block array \<noteq> ''{}''"
  by (simp add: block_def join_Some indent_lines split: option.split)

theorem block_indents_joined_members_witness:
  "[Some ''a'', None, Some ''b\<newline>c''] \<noteq> [] \<and>
   block (Some [Some ''a'', None, Some ''b\<newline>c'']) = ''{\<newline>  a\<newline>  b\<newline>  c\<newline>}''"
  using block_indents_joined_members [of "[Some ''a'', None, Some ''b\<newline>c'']" None]
  by (simp add: indent_every_line_def text_lines_def indent_line_def)

text \<open>
  Claim C9. \<^verbatim>\<open>block\<close> looks at the length of the array before \<^verbatim>\<open>join\<close> drops the empty
  members: an array that has elements, all of them the empty string, is printed as a
  pair of braces around an empty line, not as the empty string.
\<close>

theorem block_of_empty_members:
  "ms \<noteq> [] \<Longrightarrow> \<forall>m \<in> set ms. m = Some [] \<Longrightarrow> block (Some ms) = ''{\<newline>\<newline>}''"
  by (simp add: block_def join_Some present_all_empty indent_def)

theorem block_of_empty_members_witness:
  "block (Some [Some []]) = ''{\<newline>\<newline>}'' \<and> block (Some [Some []]) \<noteq> []"
  using block_of_empty_members [of "[Some []]"] by simp

text \<open>
  Claim C10. A \<^verbatim>\<open>Document\<close> with an empty list of definitions is printed as a single
  newline character.
\<close>

theorem Document_without_definitions:
  "printDocASTReducer stringify (Document (Some [])) key = Inr ''\<newline>''"
  by (simp add: join_def)

end
